theory Spec2Isabelle
  imports Complex_Main "HOL-Library.Sublist" "HOL-Library.AList"
begin

section \<open>Python values\<close>

text \<open>
  The program passes untyped dictionaries around (\<^verbatim>\<open>Dict[str, Any]\<close>), reads them with
  \<^verbatim>\<open>d[k]\<close> and \<^verbatim>\<open>d.get(k, default)\<close>, tests values for truthiness and puts them
  into a \<^verbatim>\<open>set\<close>.  The values are therefore modelled as they are at run time: one datatype
  of JSON-like Python values.  A float is modelled by a rational number, a float literal
  by the decimal it is written as (rounding, infinities and NaN are not modelled); a
  dictionary is an association list in insertion order whose keys are strings.
  Characters are the characters of the Python string (the model is about ASCII text).

  Values are copied where Python shares objects: the insight that \<^verbatim>\<open>add_insight\<close> logs
  and promotes is one object in Python and two equal values here.  The two views agree as
  long as no dictionary is changed after it was stored, which holds for every call the
  program makes: the only assignment into an existing dictionary is the timestamp that
  \<^verbatim>\<open>add_insight\<close> writes into its argument, and the analyzer builds a new dictionary for
  every call.
\<close>

datatype pyval =
    PNone
  | PBool bool
  | PInt int
  | PFloat rat
  | PStr string
  | PList "pyval list"
  | PDict "(string \<times> pyval) list"

type_synonym pydict = "(string \<times> pyval) list"

text \<open>
  Exceptions are values.  \<open>GenerationError msg\<close> is an exception raised by the language
  model collaborator, \<open>msg\<close> being what \<^verbatim>\<open>str(e)\<close> returns for it.
\<close>

datatype error =
    KeyError string
  | TypeError
  | AttributeError
  | OSError
  | JSONDecodeError
  | GenerationError string

text \<open>\<^verbatim>\<open>bool(v)\<close>: the truth value Python gives to \<open>v\<close> in a condition.\<close>

fun truthy :: "pyval \<Rightarrow> bool" where
  "truthy PNone = False"
| "truthy (PBool b) = b"
| "truthy (PInt i) = (i \<noteq> 0)"
| "truthy (PFloat r) = (r \<noteq> 0)"
| "truthy (PStr s) = (s \<noteq> [])"
| "truthy (PList xs) = (xs \<noteq> [])"
| "truthy (PDict d) = (d \<noteq> [])"

text \<open>\<^verbatim>\<open>d[k]\<close> on a dictionary raises KeyError for a missing key.\<close>

definition getitem :: "pydict \<Rightarrow> string \<Rightarrow> error + pyval" where
  "getitem d k = (case map_of d k of None \<Rightarrow> Inl (KeyError k) | Some v \<Rightarrow> Inr v)"

text \<open>\<^verbatim>\<open>d.get(k, default)\<close> on a dictionary never raises.\<close>

definition get_default :: "pydict \<Rightarrow> string \<Rightarrow> pyval \<Rightarrow> pyval" where
  "get_default d k dflt = (case map_of d k of None \<Rightarrow> dflt | Some v \<Rightarrow> v)"

text \<open>
  \<^verbatim>\<open>d[k] = v\<close> replaces the value of an existing key in place and appends a new key at the
  end: this is \<^const>\<open>AList.update\<close>.
\<close>

definition setitem :: "pydict \<Rightarrow> string \<Rightarrow> pyval \<Rightarrow> pydict" where
  "setitem d k v = AList.update k v d"

text \<open>
  The same operations on a value of unknown type (what \<^verbatim>\<open>json.load\<close> returned, or an
  element of a list of it): only a dictionary has \<^verbatim>\<open>.get\<close>, only a dictionary can be
  subscripted with a string.
\<close>

fun py_get :: "pyval \<Rightarrow> string \<Rightarrow> pyval \<Rightarrow> error + pyval" where
  "py_get (PDict d) k dflt = Inr (get_default d k dflt)"
| "py_get _ k dflt = Inl AttributeError"

fun py_getitem :: "pyval \<Rightarrow> string \<Rightarrow> error + pyval" where
  "py_getitem (PDict d) k = getitem d k"
| "py_getitem _ k = Inl TypeError"

text \<open>
  \<^verbatim>\<open>for x in v\<close>: a list yields its elements, a string its characters (as one-character
  strings), a dictionary its keys; nothing else is iterable.
\<close>

fun py_iter :: "pyval \<Rightarrow> error + pyval list" where
  "py_iter (PList xs) = Inr xs"
| "py_iter (PStr s) = Inr (map (\<lambda>c. PStr [c]) s)"
| "py_iter (PDict d) = Inr (map (\<lambda>(k, v). PStr k) d)"
| "py_iter _ = Inl TypeError"

text \<open>
  \<^verbatim>\<open>v > 0.7\<close>-style comparison of a value with a float: defined on numbers (a bool is
  the integer 0 or 1), TypeError on everything else.  Python compares with the double
  nearest to 0.7, which lies below 7/10 with no double between the two, and compares an
  integer with a double exactly: for every double and every integer the comparison with
  the double agrees with the comparison with the rational 7/10 made here.
\<close>

fun numeric :: "pyval \<Rightarrow> rat option" where
  "numeric (PBool b) = Some (if b then 1 else 0)"
| "numeric (PInt i) = Some (of_int i)"
| "numeric (PFloat r) = Some r"
| "numeric _ = None"

definition py_gt :: "pyval \<Rightarrow> rat \<Rightarrow> error + bool" where
  "py_gt v r = (case numeric v of None \<Rightarrow> Inl TypeError | Some x \<Rightarrow> Inr (r < x))"

text \<open>\<^verbatim>\<open>v + 1\<close>: a bool or an int gives an int, a float a float, anything else TypeError.\<close>

fun py_add_one :: "pyval \<Rightarrow> error + pyval" where
  "py_add_one (PBool b) = Inr (PInt ((if b then 1 else 0) + 1))"
| "py_add_one (PInt i) = Inr (PInt (i + 1))"
| "py_add_one (PFloat r) = Inr (PFloat (r + 1))"
| "py_add_one _ = Inl TypeError"

text \<open>
  Only immutable values are hashable, and only hashable values can be elements of a
  \<^verbatim>\<open>set\<close>: \<^verbatim>\<open>set([["a"]])\<close> raises \<^verbatim>\<open>TypeError: unhashable type: 'list'\<close>.
\<close>

fun hashable :: "pyval \<Rightarrow> bool" where
  "hashable (PList xs) = False"
| "hashable (PDict d) = False"
| "hashable _ = True"

text \<open>
  Equality of hashable values, as a set uses it: numbers are compared by value
  (\<^verbatim>\<open>1 == 1.0 == True\<close>), everything else structurally.
\<close>

definition py_eq :: "pyval \<Rightarrow> pyval \<Rightarrow> bool" where
  "py_eq a b = (case (numeric a, numeric b) of
                  (Some x, Some y) \<Rightarrow> x = y
                | _ \<Rightarrow> a = b)"

subsection \<open>Strings\<close>

text \<open>\<^verbatim>\<open>str.lower()\<close> on ASCII text: the letters A to Z are mapped to a to z.\<close>

definition lower_char :: "char \<Rightarrow> char" where
  "lower_char c =
     (let n = (of_char c :: nat) in if 65 \<le> n \<and> n \<le> 90 then char_of (n + 32) else c)"

definition str_lower :: "string \<Rightarrow> string" where
  "str_lower s = map lower_char s"

text \<open>
  \<^verbatim>\<open>str.split()\<close> without argument: the maximal runs of non-whitespace characters, in
  order; no empty string is ever produced.  ASCII whitespace is tab, line feed, vertical
  tab, form feed, carriage return, the four separators 28 to 31, and space.
\<close>

definition is_space :: "char \<Rightarrow> bool" where
  "is_space c = (let n = (of_char c :: nat) in (9 \<le> n \<and> n \<le> 13) \<or> (28 \<le> n \<and> n \<le> 32))"

fun split_from :: "string \<Rightarrow> string \<Rightarrow> string list" where
  "split_from w [] = (if w = [] then [] else [w])"
| "split_from w (c # cs) =
     (if is_space c then (if w = [] then split_from [] cs else w # split_from [] cs)
      else split_from (w @ [c]) cs)"

definition str_split :: "string \<Rightarrow> string list" where
  "str_split s = split_from [] s"

text \<open>
  \<^verbatim>\<open>a in b\<close> for two strings is the contiguous-substring test: \<^term>\<open>sublist a b\<close> of
  the list library.
\<close>

section \<open>cognition\_base.py\<close>

subsection \<open>The durable knowledge file\<close>

text \<open>
  The file \<^verbatim>\<open>cognition_knowledge.json\<close> is the environment of the program.  It is absent,
  or it exists and cannot be opened or read, or it exists and is not JSON, or it holds a
  JSON value.  A write is an \<^verbatim>\<open>open(..., 'w')\<close> followed by \<^verbatim>\<open>json.dump\<close>; the
  environment decides whether the next write succeeds, fails at \<^verbatim>\<open>open\<close> (the file is
  left as it was) or fails during the dump (the file is left truncated).
  \<open>writes_attempted\<close> counts the calls of \<^verbatim>\<open>open(..., 'w')\<close>; it is the only field that
  is not state of the program but a trace of what it did.
\<close>

datatype file_state = Absent | Unreadable | Malformed | Stored pyval

datatype write_outcome = WriteOk | OpenFails | DumpFails

record storage =
  content :: file_state
  next_write :: write_outcome
  writes_attempted :: nat

fun path_exists :: "file_state \<Rightarrow> bool" where
  "path_exists Absent = False"
| "path_exists _ = True"

text \<open>\<^verbatim>\<open>json.load\<close> of the opened file.\<close>

fun json_load :: "file_state \<Rightarrow> error + pyval" where
  "json_load (Stored v) = Inr v"
| "json_load Malformed = Inl JSONDecodeError"
| "json_load Unreadable = Inl OSError"
| "json_load Absent = Inl OSError"

subsection \<open>The seed catalogue\<close>

definition divide_and_conquer :: pyval where
  "divide_and_conquer = PDict
     [(''name'', PStr ''Divide and Conquer''),
      (''description'', PStr ''Break complex problems into smaller subproblems''),
      (''applicable_to'',
         PList [PStr ''optimization'', PStr ''search'', PStr ''mathematical problems'']),
      (''example'',
         PStr ''Finding prime numbers by checking divisibility up to sqrt(n)'')]"

definition iterative_refinement :: pyval where
  "iterative_refinement = PDict
     [(''name'', PStr ''Iterative Refinement''),
      (''description'', PStr ''Start with a basic solution and improve it iteratively''),
      (''applicable_to'',
         PList [PStr ''algorithms'', PStr ''numerical methods'', PStr ''approximations'']),
      (''example'', PStr ''Newton's method for finding roots'')]"

definition pattern_recognition :: pyval where
  "pattern_recognition = PDict
     [(''name'', PStr ''Pattern Recognition''),
      (''description'',
         PStr ''Identify patterns in the problem to simplify the solution''),
      (''applicable_to'',
         PList [PStr ''sequences'', PStr ''mathematical series'', PStr ''data analysis'']),
      (''example'', PStr ''Recognizing Fibonacci patterns in problems'')]"

definition seed_common_errors :: "pyval list" where
  "seed_common_errors =
     [PDict [(''type'', PStr ''Off-by-one errors''),
             (''description'', PStr ''Errors in loop boundaries or array indices''),
             (''prevention'',
                PStr ''Carefully check loop conditions and test edge cases'')],
      PDict [(''type'', PStr ''Integer overflow''),
             (''description'', PStr ''Results exceeding data type limits''),
             (''prevention'',
                PStr ''Use appropriate data types and check for overflow conditions'')]]"

definition seed_optimization_techniques :: "pyval list" where
  "seed_optimization_techniques =
     [PDict [(''name'', PStr ''Memoization''),
             (''description'', PStr ''Cache results of expensive function calls''),
             (''use_case'',
                PStr ''Recursive algorithms with overlapping subproblems'')],
      PDict [(''name'', PStr ''Early termination''),
             (''description'',
                PStr ''Stop computation when result is found or impossible''),
             (''use_case'', PStr ''Search algorithms and validation checks'')]]"

definition seed_knowledge :: pyval where
  "seed_knowledge = PDict
     [(''strategies'',
         PList [divide_and_conquer, iterative_refinement, pattern_recognition]),
      (''common_errors'', PList seed_common_errors),
      (''optimization_techniques'', PList seed_optimization_techniques)]"

subsection \<open>The class CognitionBase\<close>

record CognitionBase =
  knowledge :: pyval
  session_insights :: "pydict list"
  disk :: storage

text \<open>
  \<^verbatim>\<open>_load_knowledge\<close>: if the file exists, try to read it; any exception is logged and
  falls through to the seed catalogue, as a missing file does.
\<close>

definition load_knowledge :: "file_state \<Rightarrow> pyval" where
  "load_knowledge f =
     (if path_exists f then
        (case json_load f of Inr v \<Rightarrow> v | Inl e \<Rightarrow> seed_knowledge)
      else seed_knowledge)"

text \<open>\<^verbatim>\<open>__init__\<close>.\<close>

definition new_cognition_base :: "storage \<Rightarrow> CognitionBase" where
  "new_cognition_base st =
     \<lparr>knowledge = load_knowledge (content st), session_insights = [], disk = st\<rparr>"

text \<open>
  \<^verbatim>\<open>save_knowledge\<close>: every exception of the write is logged and swallowed.
\<close>

definition save_knowledge :: "CognitionBase \<Rightarrow> CognitionBase" where
  "save_knowledge self =
     self\<lparr>disk := (disk self)
       \<lparr>content := (case next_write (disk self) of
                      WriteOk \<Rightarrow> Stored (knowledge self)
                    | OpenFails \<Rightarrow> content (disk self)
                    | DumpFails \<Rightarrow> Malformed),
        writes_attempted := Suc (writes_attempted (disk self))\<rparr>\<rparr>"

text \<open>
  \<^verbatim>\<open>get_relevant_strategies\<close>.  The generator inside \<^verbatim>\<open>any(...)\<close> evaluates
  \<^verbatim>\<open>applicable.lower()\<close> once per keyword, so with no keyword it is never evaluated and
  a tag that is not a string goes unnoticed; with at least one keyword such a tag raises
  AttributeError.
\<close>

fun any_keyword_in :: "string list \<Rightarrow> pyval \<Rightarrow> error + bool" where
  "any_keyword_in [] applicable = Inr False"
| "any_keyword_in (k # ks) (PStr s) =
     Inr (list_ex (\<lambda>keyword. sublist keyword (str_lower s)) (k # ks))"
| "any_keyword_in (k # ks) _ = Inl AttributeError"

text \<open>The inner loop over the tags of one strategy; True is the \<^verbatim>\<open>break\<close>.\<close>

fun scan_applicable :: "string list \<Rightarrow> pyval list \<Rightarrow> error + bool" where
  "scan_applicable keywords [] = Inr False"
| "scan_applicable keywords (applicable # rest) =
     (case any_keyword_in keywords applicable of
        Inl e \<Rightarrow> Inl e
      | Inr True \<Rightarrow> Inr True
      | Inr False \<Rightarrow> scan_applicable keywords rest)"

definition strategy_relevant :: "string list \<Rightarrow> pyval \<Rightarrow> error + bool" where
  "strategy_relevant keywords strategy =
     (case py_get strategy ''applicable_to'' (PList []) of
        Inl e \<Rightarrow> Inl e
      | Inr tags \<Rightarrow>
          (case py_iter tags of
             Inl e \<Rightarrow> Inl e
           | Inr applicables \<Rightarrow> scan_applicable keywords applicables))"

text \<open>The outer loop; \<open>relevant_strategies\<close> is the list being appended to.\<close>

fun scan_strategies :: "string list \<Rightarrow> pyval list \<Rightarrow> pyval list \<Rightarrow> error + pyval list" where
  "scan_strategies keywords relevant_strategies [] = Inr relevant_strategies"
| "scan_strategies keywords relevant_strategies (strategy # rest) =
     (case strategy_relevant keywords strategy of
        Inl e \<Rightarrow> Inl e
      | Inr True \<Rightarrow> scan_strategies keywords (relevant_strategies @ [strategy]) rest
      | Inr False \<Rightarrow> scan_strategies keywords relevant_strategies rest)"

definition get_relevant_strategies :: "CognitionBase \<Rightarrow> string \<Rightarrow> error + pyval list" where
  "get_relevant_strategies self problem_description =
     (let keywords = str_split (str_lower problem_description) in
      case py_get (knowledge self) ''strategies'' (PList []) of
        Inl e \<Rightarrow> Inl e
      | Inr v \<Rightarrow>
          (case py_iter v of
             Inl e \<Rightarrow> Inl e
           | Inr strategies \<Rightarrow> scan_strategies keywords [] strategies))"

text \<open>
  The body of the \<^verbatim>\<open>if\<close> in \<^verbatim>\<open>add_insight\<close>.  \<^verbatim>\<open>"learned_patterns" not in k\<close>
  followed by \<^verbatim>\<open>k["learned_patterns"] = []\<close> and \<^verbatim>\<open>k["learned_patterns"].append(...)\<close>
  works on a dictionary whose entry, if there is one, is a list.  On a dictionary whose
  entry is not a list, \<^verbatim>\<open>.append\<close> raises AttributeError; on a value that is not a
  dictionary one of the three steps raises TypeError before anything is changed.
\<close>

definition has_key :: "pydict \<Rightarrow> string \<Rightarrow> bool" where
  "has_key d k = (map_of d k \<noteq> None)"

definition promote :: "CognitionBase \<Rightarrow> pydict \<Rightarrow> error option \<times> CognitionBase" where
  "promote self insight =
     (case knowledge self of
        PDict d \<Rightarrow>
          (let d1 = (if \<not> has_key d ''learned_patterns''
                     then setitem d ''learned_patterns'' (PList []) else d)
           in case map_of d1 ''learned_patterns'' of
                Some (PList xs) \<Rightarrow>
                  (None,
                   save_knowledge
                     (self\<lparr>knowledge :=
                        PDict (setitem d1 ''learned_patterns'' (PList (xs @ [PDict insight])))\<rparr>))
              | _ \<Rightarrow> (Some AttributeError, self\<lparr>knowledge := PDict d1\<rparr>))
      | _ \<Rightarrow> (Some TypeError, self))"

text \<open>
  \<^verbatim>\<open>add_insight\<close>; \<open>now\<close> is what \<^verbatim>\<open>datetime.now().isoformat()\<close> returns.  The result
  is the exception raised, if any, and the object as the call leaves it: what was
  appended before an exception stays appended.
\<close>

definition add_insight :: "string \<Rightarrow> CognitionBase \<Rightarrow> pydict \<Rightarrow> error option \<times> CognitionBase" where
  "add_insight now self insight0 =
     (let insight = setitem insight0 ''timestamp'' (PStr now);
          self1 = self\<lparr>session_insights := session_insights self @ [insight]\<rparr>
      in case py_gt (get_default insight ''significance'' (PInt 0)) (7 / 10) of
           Inl e \<Rightarrow> (Some e, self1)
         | Inr False \<Rightarrow> (None, self1)
         | Inr True \<Rightarrow> promote self1 insight)"

text \<open>
  \<^verbatim>\<open>set(...)\<close> of a sequence: every element must be hashable; an element equal to one
  already in the set is dropped.  \<^verbatim>\<open>list(set(...))\<close> lists the elements in an order
  Python does not specify; the model lists them in order of first insertion.
\<close>

fun set_insert_all :: "pyval list \<Rightarrow> pyval list \<Rightarrow> pyval list" where
  "set_insert_all elems [] = elems"
| "set_insert_all elems (x # xs) =
     set_insert_all (if list_ex (py_eq x) elems then elems else elems @ [x]) xs"

definition py_set :: "pyval list \<Rightarrow> error + pyval list" where
  "py_set xs = (if list_all hashable xs then Inr (set_insert_all [] xs) else Inl TypeError)"

record summary =
  total_insights :: nat
  insights :: "pydict list"
  strategies_used :: "pyval list"

text \<open>\<^verbatim>\<open>get_session_summary\<close>; \<^verbatim>\<open>i.get("strategy")\<close> is None for a missing key.\<close>

definition get_session_summary :: "CognitionBase \<Rightarrow> error + summary" where
  "get_session_summary self =
     (case py_set (map (\<lambda>i. get_default i ''strategy'' PNone)
                     (filter (\<lambda>i. truthy (get_default i ''strategy'' PNone))
                        (session_insights self))) of
        Inl e \<Rightarrow> Inl e
      | Inr s \<Rightarrow>
          Inr \<lparr>total_insights = length (session_insights self),
               insights = session_insights self,
               strategies_used = s\<rparr>)"

section \<open>The language model collaborator\<close>

text \<open>
  \<^verbatim>\<open>llm.query(prompt, system_prompt)\<close> is outside the program: it returns a text or
  raises.  Each call of a method that queries the model takes the outcome of that query
  as an argument; \<open>Failure msg\<close> is an exception \<open>e\<close> with \<^verbatim>\<open>str(e) = msg\<close>.  The
  prompt has no effect inside the program, so of the prompt only the values interpolated
  into it are modelled: evaluating them can raise, and does so before the query.
\<close>

datatype llm_outcome = Response string | Failure string

section \<open>analyst.py\<close>

record Analyst =
  a_cognition_base :: CognitionBase
  analyses :: "pydict list"

definition new_analyst :: "CognitionBase \<Rightarrow> Analyst" where
  "new_analyst cb = \<lparr>a_cognition_base = cb, analyses = []\<rparr>"

fun py_len :: "pyval \<Rightarrow> error + nat" where
  "py_len (PStr s) = Inr (length s)"
| "py_len (PList xs) = Inr (length xs)"
| "py_len (PDict d) = Inr (length d)"
| "py_len _ = Inl TypeError"

text \<open>
  The preview of the output: \<^verbatim>\<open>out[:500] + "..."\<close> if it is longer than 500, the output
  itself otherwise, the text \<^verbatim>\<open>None\<close> if there is no output.
\<close>

definition output_preview :: "pydict \<Rightarrow> error + pyval" where
  "output_preview test_result =
     (let out = get_default test_result ''output'' PNone in
      if truthy out then
        (case py_len out of
           Inl e \<Rightarrow> Inl e
         | Inr n \<Rightarrow>
             if n > 500 then
               (case out of PStr s \<Rightarrow> Inr (PStr (take 500 s @ ''...'')) | _ \<Rightarrow> Inl TypeError)
             else Inr out)
      else Inr (PStr ''None''))"

text \<open>The values interpolated into the prompt of \<^verbatim>\<open>analyze_results\<close>, in order.\<close>

definition analysis_prompt :: "pydict \<Rightarrow> pydict \<Rightarrow> pydict \<Rightarrow> error + pyval list" where
  "analysis_prompt proposal test_result validation =
     (case output_preview test_result of
        Inl e \<Rightarrow> Inl e
      | Inr preview \<Rightarrow>
     (case getitem proposal ''goal'' of
        Inl e \<Rightarrow> Inl e
      | Inr goal \<Rightarrow>
     (case getitem test_result ''success'' of
        Inl e \<Rightarrow> Inl e
      | Inr success \<Rightarrow>
          Inr [goal,
               get_default proposal ''iteration'' (PInt 1),
               get_default proposal ''strategies_used'' (PList []),
               success,
               preview,
               get_default test_result ''error'' (PStr ''None''),
               get_default test_result ''issues'' (PList []),
               get_default validation ''meets_goal'' (PBool False),
               get_default validation ''confidence'' (PInt 0),
               get_default validation ''notes'' (PList [])])))"

text \<open>
  \<^verbatim>\<open>analysis.get('analysis', '')[:200] if analysis.get('analysis') else "No analysis available"\<close>
\<close>

definition key_learning :: "pydict \<Rightarrow> error + pyval" where
  "key_learning analysis =
     (if truthy (get_default analysis ''analysis'' PNone) then
        (case get_default analysis ''analysis'' (PStr []) of
           PStr s \<Rightarrow> Inr (PStr (take 200 s))
         | PList xs \<Rightarrow> Inr (PList (take 200 xs))
         | _ \<Rightarrow> Inl TypeError)
      else Inr (PStr ''No analysis available''))"

text \<open>
  \<^verbatim>\<open>_extract_insights\<close>: the whole body is inside \<^verbatim>\<open>try ... except Exception\<close>, so it
  always returns; what \<^verbatim>\<open>add_insight\<close> did before raising stays done.
\<close>

definition extract_insights :: "string \<Rightarrow> Analyst \<Rightarrow> pydict \<Rightarrow> pydict \<Rightarrow> Analyst" where
  "extract_insights now self analysis proposal =
     (case getitem proposal ''goal'' of
        Inl e \<Rightarrow> self
      | Inr goal \<Rightarrow>
     (case getitem analysis ''success'' of
        Inl e \<Rightarrow> self
      | Inr success \<Rightarrow>
     (case key_learning analysis of
        Inl e \<Rightarrow> self
      | Inr learning \<Rightarrow>
          (let insight =
                 [(''goal'', goal),
                  (''strategy'', get_default proposal ''strategies_used'' (PList [])),
                  (''success'', success),
                  (''key_learning'', learning),
                  (''significance'', PFloat (if truthy success then 5 / 10 else 3 / 10))]
           in self\<lparr>a_cognition_base :=
                     snd (add_insight now (a_cognition_base self) insight)\<rparr>))))"

text \<open>
  \<^verbatim>\<open>analyze_results\<close>.  The prompt is built before the \<^verbatim>\<open>try\<close>, so an exception there
  leaves the method.  Both the \<^verbatim>\<open>try\<close> body and the handler read
  \<^verbatim>\<open>test_result['success']\<close>: a KeyError in the body would be caught and raised again
  by the same read in the handler, so in the model the read comes first and its error
  leaves the method, whatever the query did.
\<close>

definition failure_text :: "string \<Rightarrow> pyval \<Rightarrow> string" where
  "failure_text msg success =
     ''Analysis failed: '' @ msg @ ''. Test result: '' @
     (if truthy success then ''Success'' else ''Failed'')"

definition analyze_results ::
  "string \<Rightarrow> llm_outcome \<Rightarrow> Analyst \<Rightarrow> pydict \<Rightarrow> pydict \<Rightarrow> pydict \<Rightarrow> (error + pydict) \<times> Analyst" where
  "analyze_results now llm self proposal test_result validation =
     (case analysis_prompt proposal test_result validation of
        Inl e \<Rightarrow> (Inl e, self)
      | Inr prompt \<Rightarrow>
     (case getitem test_result ''success'' of
        Inl e \<Rightarrow> (Inl e, self)
      | Inr success \<Rightarrow>
          (case llm of
             Response response \<Rightarrow>
               (let analysis =
                      [(''iteration'', get_default proposal ''iteration'' (PInt 1)),
                       (''success'', success),
                       (''analysis'', PStr response),
                       (''test_result'', PDict test_result),
                       (''validation'', PDict validation)];
                    self1 = self\<lparr>analyses := analyses self @ [analysis]\<rparr>
                in (Inr analysis, extract_insights now self1 analysis proposal))
           | Failure msg \<Rightarrow>
               (let basic_analysis =
                      [(''iteration'', get_default proposal ''iteration'' (PInt 1)),
                       (''success'', success),
                       (''analysis'', PStr (failure_text msg success)),
                       (''test_result'', PDict test_result),
                       (''validation'', PDict validation)]
                in (Inr basic_analysis,
                    self\<lparr>analyses := analyses self @ [basic_analysis]\<rparr>)))))"

text \<open>\<^verbatim>\<open>recommend_next_action\<close>; \<^verbatim>\<open>a and b\<close> does not evaluate \<open>b\<close> when \<open>a\<close> is false.\<close>

definition recommend_next_action :: "Analyst \<Rightarrow> error + string" where
  "recommend_next_action self =
     (if analyses self = [] then Inr ''No data available. Start with a new proposal.''
      else
        (let last_analysis = last (analyses self) in
         case getitem last_analysis ''success'' of
           Inl e \<Rightarrow> Inl e
         | Inr success \<Rightarrow>
             (case (if truthy success then
                      (case getitem last_analysis ''validation'' of
                         Inl e \<Rightarrow> Inl e
                       | Inr validation \<Rightarrow>
                           (case py_get validation ''meets_goal'' PNone of
                              Inl e \<Rightarrow> Inl e
                            | Inr m \<Rightarrow> Inr (truthy m)))
                    else Inr False) of
                Inl e \<Rightarrow> Inl e
              | Inr True \<Rightarrow>
                  Inr ''Goal achieved! Consider optimizing the solution or trying a more complex goal.''
              | Inr False \<Rightarrow>
                  if truthy success then
                    Inr ''Solution runs but doesn't fully meet the goal. Refine the logic.''
                  else if length (analyses self) \<ge> 5 then
                    Inr ''Multiple attempts failed. Consider revising the goal or approach fundamentally.''
                  else Inr ''Refine the current approach based on the error feedback.'')))"

section \<open>researcher.py\<close>

record Researcher =
  r_cognition_base :: CognitionBase
  proposal_history :: "pydict list"

definition new_researcher :: "CognitionBase \<Rightarrow> Researcher" where
  "new_researcher cb = \<lparr>r_cognition_base = cb, proposal_history = []\<rparr>"

text \<open>A comprehension \<^verbatim>\<open>[f(x) for x in xs]\<close> whose \<open>f\<close> can raise: the first exception wins.\<close>

fun map_err :: "('a \<Rightarrow> error + 'b) \<Rightarrow> 'a list \<Rightarrow> error + 'b list" where
  "map_err f [] = Inr []"
| "map_err f (x # xs) =
     (case f x of
        Inl e \<Rightarrow> Inl e
      | Inr y \<Rightarrow> (case map_err f xs of Inl e \<Rightarrow> Inl e | Inr ys \<Rightarrow> Inr (y # ys)))"

text \<open>The \<^verbatim>\<open>name\<close> and \<^verbatim>\<open>description\<close> of one strategy, for its line of the prompt.\<close>

definition strategy_line :: "pyval \<Rightarrow> error + pyval list" where
  "strategy_line strategy =
     (case py_getitem strategy ''name'' of
        Inl e \<Rightarrow> Inl e
      | Inr n \<Rightarrow>
          (case py_getitem strategy ''description'' of
             Inl e \<Rightarrow> Inl e
           | Inr d \<Rightarrow> Inr [n, d]))"

text \<open>The values interpolated into the prompt of \<^verbatim>\<open>propose_solution\<close>, in order.\<close>

definition proposal_prompt :: "string \<Rightarrow> pyval list \<Rightarrow> pydict option \<Rightarrow> error + pyval list" where
  "proposal_prompt goal strategies previous_attempt =
     (case map_err strategy_line strategies of
        Inl e \<Rightarrow> Inl e
      | Inr lines \<Rightarrow>
          Inr (PStr goal # concat lines @
               (case previous_attempt of
                  None \<Rightarrow> []
                | Some p \<Rightarrow>
                    if p \<noteq> [] then [get_default p ''error'' (PStr ''Unknown error'')]
                    else [])))"

text \<open>
  \<^verbatim>\<open>propose_solution\<close>: an exception inside the \<^verbatim>\<open>try\<close> is logged and raised again.
\<close>

definition propose_solution ::
  "llm_outcome \<Rightarrow> Researcher \<Rightarrow> string \<Rightarrow> pydict option \<Rightarrow> (error + pydict) \<times> Researcher" where
  "propose_solution llm self goal previous_attempt =
     (case get_relevant_strategies (r_cognition_base self) goal of
        Inl e \<Rightarrow> (Inl e, self)
      | Inr strategies \<Rightarrow>
     (case proposal_prompt goal strategies previous_attempt of
        Inl e \<Rightarrow> (Inl e, self)
      | Inr prompt \<Rightarrow>
     (case llm of
        Failure msg \<Rightarrow> (Inl (GenerationError msg), self)
      | Response response \<Rightarrow>
     (case map_err (\<lambda>s. py_getitem s ''name'') strategies of
        Inl e \<Rightarrow> (Inl e, self)
      | Inr names \<Rightarrow>
          (let proposal =
                 [(''goal'', PStr goal),
                  (''solution'', PStr response),
                  (''strategies_used'', PList names),
                  (''iteration'', PInt (int (length (proposal_history self)) + 1))]
           in (Inr proposal,
               self\<lparr>proposal_history := proposal_history self @ [proposal]\<rparr>))))))"

text \<open>
  \<^verbatim>\<open>refine_proposal\<close>: the prompt reads \<^verbatim>\<open>proposal['goal']\<close> and
  \<^verbatim>\<open>proposal['solution']\<close> before the \<^verbatim>\<open>try\<close>; an exception inside the
  \<^verbatim>\<open>try\<close> is logged and raised again.
\<close>

definition refine_prompt :: "pydict \<Rightarrow> pydict \<Rightarrow> error + pyval list" where
  "refine_prompt proposal feedback =
     (case getitem proposal ''goal'' of
        Inl e \<Rightarrow> Inl e
      | Inr goal \<Rightarrow>
          (case getitem proposal ''solution'' of
             Inl e \<Rightarrow> Inl e
           | Inr solution \<Rightarrow>
               Inr [goal, solution,
                    get_default feedback ''success'' (PBool False),
                    get_default feedback ''error'' (PStr ''None''),
                    get_default feedback ''output'' (PStr ''None''),
                    get_default feedback ''issues'' (PList [])]))"

definition refine_proposal ::
  "llm_outcome \<Rightarrow> Researcher \<Rightarrow> pydict \<Rightarrow> pydict \<Rightarrow> (error + pydict) \<times> Researcher" where
  "refine_proposal llm self proposal feedback =
     (case refine_prompt proposal feedback of
        Inl e \<Rightarrow> (Inl e, self)
      | Inr prompt \<Rightarrow>
     (case llm of
        Failure msg \<Rightarrow> (Inl (GenerationError msg), self)
      | Response response \<Rightarrow>
     (case getitem proposal ''goal'' of
        Inl e \<Rightarrow> (Inl e, self)
      | Inr goal \<Rightarrow>
     (case getitem proposal ''iteration'' of
        Inl e \<Rightarrow> (Inl e, self)
      | Inr iteration \<Rightarrow>
     (case py_add_one iteration of
        Inl e \<Rightarrow> (Inl e, self)
      | Inr next_iteration \<Rightarrow>
          (let refined_proposal =
                 [(''goal'', goal),
                  (''solution'', PStr response),
                  (''strategies_used'', get_default proposal ''strategies_used'' (PList [])),
                  (''iteration'', next_iteration),
                  (''refined_from'', iteration)]
           in (Inr refined_proposal,
               self\<lparr>proposal_history := proposal_history self @ [refined_proposal]\<rparr>)))))))"

section \<open>Notions of the specification\<close>

text \<open>A session that starts with no knowledge file on disk.\<close>

definition absent_storage :: storage where
  "absent_storage = \<lparr>content = Absent, next_write = WriteOk, writes_attempted = 0\<rparr>"

text \<open>
  The catalogue of the specification's data model: a mapping whose \<^verbatim>\<open>strategies\<close> entry,
  if there is one, is a sequence of Strategy records, and a Strategy record is a mapping
  whose \<^verbatim>\<open>applicable_to\<close> entry, if there is one, is a sequence of tags, which are
  strings.  A knowledge file edited by hand can hold any JSON value; these predicates say
  which values are catalogues.
\<close>

fun is_str :: "pyval \<Rightarrow> bool" where
  "is_str (PStr s) = True"
| "is_str _ = False"

definition well_formed_strategy :: "pyval \<Rightarrow> bool" where
  "well_formed_strategy s =
     (case s of
        PDict d \<Rightarrow>
          (case map_of d ''applicable_to'' of
             None \<Rightarrow> True
           | Some (PList tags) \<Rightarrow> list_all is_str tags
           | Some _ \<Rightarrow> False)
      | _ \<Rightarrow> False)"

definition well_formed_catalogue :: "pyval \<Rightarrow> bool" where
  "well_formed_catalogue k =
     (case k of
        PDict d \<Rightarrow>
          (case map_of d ''strategies'' of
             None \<Rightarrow> True
           | Some (PList ss) \<Rightarrow> list_all well_formed_strategy ss
           | Some _ \<Rightarrow> False)
      | _ \<Rightarrow> False)"

text \<open>The strategies of a catalogue, in catalogue order, and the tags of a strategy.\<close>

definition catalogue_strategies :: "pyval \<Rightarrow> pyval list" where
  "catalogue_strategies k =
     (case k of
        PDict d \<Rightarrow> (case map_of d ''strategies'' of Some (PList ss) \<Rightarrow> ss | _ \<Rightarrow> [])
      | _ \<Rightarrow> [])"

definition strategy_tags :: "pyval \<Rightarrow> pyval list" where
  "strategy_tags s =
     (case s of
        PDict d \<Rightarrow> (case map_of d ''applicable_to'' of Some (PList tags) \<Rightarrow> tags | _ \<Rightarrow> [])
      | _ \<Rightarrow> [])"

text \<open>
  The rule of the specification, in its words: a strategy applies to a description if any
  of its tags contains, as a case-insensitive substring, at least one of the lowercase
  whitespace-delimited keywords of the description.
\<close>

fun tag_contains :: "string \<Rightarrow> pyval \<Rightarrow> bool" where
  "tag_contains keyword (PStr tag) = sublist keyword (str_lower tag)"
| "tag_contains keyword _ = False"

definition applies :: "string \<Rightarrow> pyval \<Rightarrow> bool" where
  "applies description strategy =
     list_ex (\<lambda>tag. list_ex (\<lambda>keyword. tag_contains keyword tag)
                       (str_split (str_lower description)))
       (strategy_tags strategy)"

text \<open>
  The sequence of records a catalogue holds under a category: empty when the category is
  absent, undefined when the value is not a catalogue or the entry is not a sequence.
  \<open>has_category\<close> tells an empty category from an absent one.
\<close>

definition category :: "pyval \<Rightarrow> string \<Rightarrow> pyval list option" where
  "category k c =
     (case k of
        PDict d \<Rightarrow>
          (case map_of d c of
             None \<Rightarrow> Some []
           | Some (PList xs) \<Rightarrow> Some xs
           | Some _ \<Rightarrow> None)
      | _ \<Rightarrow> None)"

definition has_category :: "pyval \<Rightarrow> string \<Rightarrow> bool" where
  "has_category k c = (case k of PDict d \<Rightarrow> has_key d c | _ \<Rightarrow> False)"

text \<open>
  The significance of an insight as \<^verbatim>\<open>add_insight\<close> reads it: the number under
  \<^verbatim>\<open>significance\<close>, 0 when the key is missing, undefined when the value is not a number.
\<close>

definition significance :: "pydict \<Rightarrow> rat option" where
  "significance insight = numeric (get_default insight ''significance'' (PInt 0))"

text \<open>
  One call of \<^verbatim>\<open>analyze_results\<close> as the driving loop makes it: the arguments, the clock
  reading and the outcome of the query.  A sequence of calls is run from left to right;
  a call that raises leaves the object as the exception left it and the loop goes on.
\<close>

record analyze_call =
  call_time :: string
  call_llm :: llm_outcome
  call_proposal :: pydict
  call_test_result :: pydict
  call_validation :: pydict

definition do_analyze :: "Analyst \<Rightarrow> analyze_call \<Rightarrow> Analyst" where
  "do_analyze self c =
     snd (analyze_results (call_time c) (call_llm c) self
            (call_proposal c) (call_test_result c) (call_validation c))"

definition run_analyses :: "Analyst \<Rightarrow> analyze_call list \<Rightarrow> Analyst" where
  "run_analyses self calls = foldl do_analyze self calls"

fun generator_succeeded :: "llm_outcome \<Rightarrow> bool" where
  "generator_succeeded (Response text) = True"
| "generator_succeeded (Failure msg) = False"

text \<open>
  The Proposal and TestResult of the specification's data model: a proposal has a goal, a
  test result has a success flag and an output that is a string or absent.
\<close>

definition well_formed_proposal :: "pydict \<Rightarrow> bool" where
  "well_formed_proposal p = has_key p ''goal''"

definition well_formed_test_result :: "pydict \<Rightarrow> bool" where
  "well_formed_test_result t =
     (has_key t ''success'' \<and>
      (case get_default t ''output'' PNone of
         PNone \<Rightarrow> True
       | PStr s \<Rightarrow> True
       | _ \<Rightarrow> False))"

definition well_formed_call :: "analyze_call \<Rightarrow> bool" where
  "well_formed_call c =
     (well_formed_proposal (call_proposal c) \<and> well_formed_test_result (call_test_result c))"

text \<open>Two concrete calls: the generator fails in the first and answers in the second.\<close>

definition failed_call :: analyze_call where
  "failed_call =
     \<lparr>call_time = ''t1'', call_llm = Failure ''timeout'',
      call_proposal = [(''goal'', PStr ''sort a list''), (''iteration'', PInt 1)],
      call_test_result = [(''success'', PBool False), (''error'', PStr ''IndexError'')],
      call_validation = [(''meets_goal'', PBool False)]\<rparr>"

definition answered_call :: analyze_call where
  "answered_call = failed_call\<lparr>call_llm := Response ''The loop bound is off by one.''\<rparr>"

text \<open>
  The proposal that \<^verbatim>\<open>propose_solution\<close> returns in a fresh session for the goal
  \<^verbatim>\<open>optimize this search algorithm\<close> when the generator answers.
\<close>

definition search_proposal :: pydict where
  "search_proposal =
     [(''goal'', PStr ''optimize this search algorithm''),
      (''solution'', PStr ''def search(xs, x): ...''),
      (''strategies_used'', PList [PStr ''Divide and Conquer'', PStr ''Iterative Refinement'']),
      (''iteration'', PInt 1)]"

section \<open>Properties of strategy retrieval\<close>

lemma any_keyword_in_str:
  "any_keyword_in kws (PStr s) = Inr (list_ex (\<lambda>keyword. tag_contains keyword (PStr s)) kws)"
  by (cases kws) simp_all

lemma scan_applicable_strs:
  "list_all is_str tags \<Longrightarrow>
   scan_applicable kws tags =
     Inr (list_ex (\<lambda>tag. list_ex (\<lambda>keyword. tag_contains keyword tag) kws) tags)"
proof (induction tags)
  case Nil
  then show ?case by simp
next
  case (Cons t ts)
  then obtain s where t: "t = PStr s" by (cases t) simp_all
  from Cons show ?case
    unfolding t by (simp add: any_keyword_in_str del: tag_contains.simps split: bool.splits)
qed

lemma strategy_relevant_wf:
  "well_formed_strategy s \<Longrightarrow>
   strategy_relevant (str_split (str_lower description)) s = Inr (applies description s)"
  by (auto simp: well_formed_strategy_def strategy_relevant_def applies_def strategy_tags_def
        get_default_def scan_applicable_strs split: pyval.splits option.splits)

lemma scan_strategies_wf:
  "list_all well_formed_strategy ss \<Longrightarrow>
   scan_strategies (str_split (str_lower description)) acc ss =
     Inr (acc @ filter (applies description) ss)"
  by (induction ss arbitrary: acc) (simp_all add: strategy_relevant_wf)

lemma get_relevant_strategies_wf:
  "well_formed_catalogue (knowledge self) \<Longrightarrow>
   get_relevant_strategies self description =
     Inr (filter (applies description) (catalogue_strategies (knowledge self)))"
  by (auto simp: well_formed_catalogue_def get_relevant_strategies_def catalogue_strategies_def
        get_default_def scan_strategies_wf split: pyval.splits option.splits)

lemma count_list_filter_le: "count_list (filter P xs) x \<le> count_list xs x"
  by (induction xs) auto

lemma seed_wf: "well_formed_catalogue seed_knowledge"
  by (simp add: well_formed_catalogue_def seed_knowledge_def well_formed_strategy_def
        divide_and_conquer_def iterative_refinement_def pattern_recognition_def)

lemma seed_strategies:
  "catalogue_strategies seed_knowledge =
     [divide_and_conquer, iterative_refinement, pattern_recognition]"
  by (simp add: catalogue_strategies_def seed_knowledge_def)

lemma fresh_knowledge: "knowledge (new_cognition_base absent_storage) = seed_knowledge"
  by (simp add: new_cognition_base_def absent_storage_def load_knowledge_def)

lemma keywords_scenario:
  "str_split (str_lower ''optimize this search algorithm'') =
     [''optimize'', ''this'', ''search'', ''algorithm'']"
  by (simp add: str_split_def str_lower_def lower_char_def is_space_def)

lemma applies_scenario:
  "applies ''optimize this search algorithm'' divide_and_conquer"
  "applies ''optimize this search algorithm'' iterative_refinement"
  "\<not> applies ''optimize this search algorithm'' pattern_recognition"
  unfolding applies_def keywords_scenario
  by (simp_all add: strategy_tags_def divide_and_conquer_def iterative_refinement_def
        pattern_recognition_def str_lower_def lower_char_def sublist_Cons_right)

lemma scenario_value:
  "knowledge self = seed_knowledge \<Longrightarrow>
   get_relevant_strategies self ''optimize this search algorithm'' =
     Inr [divide_and_conquer, iterative_refinement]"
  by (simp add: get_relevant_strategies_wf seed_wf seed_strategies applies_scenario)

text \<open>
  Claim C4, as the code has it.  The description \<^verbatim>\<open>optimize this search algorithm\<close>
  against the seed catalogue retrieves two strategies, not one: Divide and Conquer (the
  keyword \<^verbatim>\<open>search\<close> is in its tag \<^verbatim>\<open>search\<close>) and Iterative Refinement (the keyword
  \<^verbatim>\<open>algorithm\<close> is a substring of its tag \<^verbatim>\<open>algorithms\<close>), in catalogue order; Pattern
  Recognition is excluded, since none of its tags contains a keyword.
\<close>

theorem search_scenario_two_strategies:
  "get_relevant_strategies (new_cognition_base absent_storage)
       ''optimize this search algorithm'' =
     Inr [divide_and_conquer, iterative_refinement]
   \<and> list_ex (tag_contains ''search'') (strategy_tags divide_and_conquer)
   \<and> list_ex (tag_contains ''algorithm'') (strategy_tags iterative_refinement)
   \<and> \<not> applies ''optimize this search algorithm'' pattern_recognition"
  by (simp add: scenario_value fresh_knowledge applies_scenario)
    (simp add: strategy_tags_def divide_and_conquer_def iterative_refinement_def
       str_lower_def lower_char_def sublist_Cons_right)

text \<open>
  Claim C4 as stated fails: the result is not the one-element sequence holding Divide and
  Conquer.
\<close>

theorem search_scenario_counterexample:
  "get_relevant_strategies (new_cognition_base absent_storage)
       ''optimize this search algorithm''
     \<noteq> Inr [divide_and_conquer]"
  by (simp add: scenario_value fresh_knowledge)

text \<open>
  Claim C7.  On every catalogue and for every description, retrieval returns (never
  raises), and what it returns is the catalogue's strategy sequence filtered by the rule
  of the specification.  Hence the result keeps catalogue order, holds no strategy more
  often than the catalogue does (a strategy that is in the catalogue once is in the result
  at most once), and is empty when no strategy applies.  The result is a function of
  description and catalogue alone: any object with the same catalogue, whatever else
  happened to it between two calls, gives the same result.
\<close>

theorem retrieve_strategies_properties:
  assumes "well_formed_catalogue (knowledge self)"
  shows "\<exists>result. get_relevant_strategies self description = Inr result
           \<and> result = filter (applies description) (catalogue_strategies (knowledge self))
           \<and> subseq result (catalogue_strategies (knowledge self))
           \<and> (\<forall>s. count_list result s \<le> count_list (catalogue_strategies (knowledge self)) s)
           \<and> (distinct (catalogue_strategies (knowledge self)) \<longrightarrow> distinct result)
           \<and> (list_all (\<lambda>s. \<not> applies description s) (catalogue_strategies (knowledge self))
                \<longrightarrow> result = [])
           \<and> (\<forall>other. knowledge other = knowledge self \<longrightarrow>
                 get_relevant_strategies other description = Inr result)"
  using assms
  by (auto simp: get_relevant_strategies_wf count_list_filter_le list_all_iff filter_empty_conv)

text \<open>
  Retrieval on the seed catalogue: one match, and none.
\<close>

theorem retrieve_strategies_properties_witness:
  "well_formed_catalogue (knowledge (new_cognition_base absent_storage))
   \<and> get_relevant_strategies (new_cognition_base absent_storage) ''data analysis'' =
       Inr [pattern_recognition]
   \<and> get_relevant_strategies (new_cognition_base absent_storage) ''cook dinner'' = Inr []"
  using retrieve_strategies_properties [of "new_cognition_base absent_storage" "''data analysis''"]
    retrieve_strategies_properties [of "new_cognition_base absent_storage" "''cook dinner''"]
  apply (simp add: fresh_knowledge seed_wf seed_strategies)
  apply (simp add: applies_def strategy_tags_def divide_and_conquer_def iterative_refinement_def
        pattern_recognition_def str_lower_def lower_char_def sublist_Cons_right str_split_def
        is_space_def)
  done

section \<open>Properties of loading\<close>

text \<open>
  Claim C8.  When the knowledge file is absent, or exists and reading or parsing it
  raises, \<^verbatim>\<open>_load_knowledge\<close> returns the seed catalogue, and so the constructor of
  CognitionBase completes with the seed catalogue; the seed's strategies are exactly Divide
  and Conquer, Iterative Refinement and Pattern Recognition.
\<close>

theorem load_falls_back_to_seed:
  assumes "\<not> path_exists f \<or> (\<exists>e. json_load f = Inl e)"
  shows "load_knowledge f = seed_knowledge
         \<and> knowledge (new_cognition_base (st\<lparr>content := f\<rparr>)) = seed_knowledge
         \<and> map_err (\<lambda>s. py_getitem s ''name'') (catalogue_strategies seed_knowledge) =
             Inr [PStr ''Divide and Conquer'', PStr ''Iterative Refinement'',
                  PStr ''Pattern Recognition'']"
  using assms
  by (auto simp: load_knowledge_def new_cognition_base_def seed_strategies getitem_def
        divide_and_conquer_def iterative_refinement_def pattern_recognition_def)

text \<open>
  The three ways of not getting a catalogue from the file.
\<close>

theorem load_falls_back_to_seed_witness:
  "load_knowledge Absent = seed_knowledge \<and> load_knowledge Unreadable = seed_knowledge
   \<and> load_knowledge Malformed = seed_knowledge"
  using load_falls_back_to_seed [of Absent] load_falls_back_to_seed [of Unreadable]
    load_falls_back_to_seed [of Malformed]
  by simp

section \<open>Properties of insight promotion\<close>

lemma get_default_setitem_other:
  "k \<noteq> k' \<Longrightarrow> get_default (setitem d k v) k' dflt = get_default d k' dflt"
  by (simp add: get_default_def setitem_def update_conv')

lemma add_insight_logs:
  "session_insights (snd (add_insight now self insight)) =
     session_insights self @ [setitem insight ''timestamp'' (PStr now)]"
  by (auto simp: add_insight_def promote_def Let_def save_knowledge_def
        split: sum.splits bool.splits pyval.splits option.splits)

lemma add_insight_low:
  assumes "significance insight = Some r" "r \<le> 7 / 10"
  shows "add_insight now self insight =
           (None, self\<lparr>session_insights :=
                        session_insights self @ [setitem insight ''timestamp'' (PStr now)]\<rparr>)"
  using assms
  by (simp add: add_insight_def significance_def py_gt_def get_default_setitem_other Let_def
        not_less [symmetric])

lemma add_insight_high:
  assumes "significance insight = Some r" "7 / 10 < r"
  shows "add_insight now self insight =
           promote (self\<lparr>session_insights :=
                        session_insights self @ [setitem insight ''timestamp'' (PStr now)]\<rparr>)
             (setitem insight ''timestamp'' (PStr now))"
  using assms
  by (simp add: add_insight_def significance_def py_gt_def get_default_setitem_other Let_def)

lemma category_setitem:
  "category (PDict (setitem d k (PList xs))) c =
     (if c = k then Some xs else category (PDict d) c)"
  by (simp add: category_def setitem_def update_conv')

lemma has_category_setitem: "has_category (PDict (setitem d k v)) k"
  by (simp add: has_category_def has_key_def setitem_def update_conv')

lemma promote_dict:
  assumes "knowledge self = PDict d"
      and "category (knowledge self) ''learned_patterns'' = Some patterns"
  shows "\<exists>d'. promote self insight =
           (None,
            save_knowledge
              (self\<lparr>knowledge :=
                 PDict (setitem d' ''learned_patterns'' (PList (patterns @ [PDict insight])))\<rparr>))
           \<and> (\<forall>c. c \<noteq> ''learned_patterns'' \<longrightarrow> category (PDict d') c = category (PDict d) c)"
proof (cases "map_of d ''learned_patterns''")
  case None
  with assms have "patterns = []" by (simp add: category_def)
  with None assms(1) have "promote self insight =
           (None,
            save_knowledge
              (self\<lparr>knowledge :=
                 PDict (setitem (setitem d ''learned_patterns'' (PList []))
                    ''learned_patterns'' (PList (patterns @ [PDict insight])))\<rparr>))"
    by (simp add: promote_def has_key_def setitem_def update_conv')
  then show ?thesis
    by (metis category_setitem)
next
  case (Some v)
  with assms have "v = PList patterns" by (auto simp: category_def split: pyval.splits)
  with Some assms(1) have "promote self insight =
           (None,
            save_knowledge
              (self\<lparr>knowledge :=
                 PDict (setitem d ''learned_patterns'' (PList (patterns @ [PDict insight])))\<rparr>))"
    by (simp add: promote_def has_key_def)
  then show ?thesis by blast
qed

lemma promote_category:
  assumes "category (knowledge self) ''learned_patterns'' = Some patterns"
  shows "\<exists>self'. promote self insight = (None, self')
           \<and> session_insights self' = session_insights self
           \<and> category (knowledge self') ''learned_patterns'' = Some (patterns @ [PDict insight])
           \<and> has_category (knowledge self') ''learned_patterns''
           \<and> (\<forall>c. c \<noteq> ''learned_patterns'' \<longrightarrow>
                  category (knowledge self') c = category (knowledge self) c)
           \<and> writes_attempted (disk self') = Suc (writes_attempted (disk self))
           \<and> (next_write (disk self) = WriteOk \<longrightarrow>
                  content (disk self') = Stored (knowledge self'))"
proof -
  from assms obtain d where d: "knowledge self = PDict d"
    by (cases "knowledge self") (simp_all add: category_def)
  from promote_dict [OF d assms, of insight] obtain d' where
    p: "promote self insight =
           (None,
            save_knowledge
              (self\<lparr>knowledge :=
                 PDict (setitem d' ''learned_patterns'' (PList (patterns @ [PDict insight])))\<rparr>))"
    and o: "\<forall>c. c \<noteq> ''learned_patterns'' \<longrightarrow> category (PDict d') c = category (PDict d) c"
    by blast
  show ?thesis
    unfolding p using o
    by (simp add: save_knowledge_def category_setitem has_category_setitem d)
qed

text \<open>
  Claim C1.  \<^verbatim>\<open>add_insight\<close> appends the insight, with its timestamp, to the session
  log in every case (also when it raises).  If the significance is a number not greater
  than 0.7, the call returns and neither the catalogue nor the file is touched.  If it is a
  number greater than 0.7 and the catalogue's \<^verbatim>\<open>learned_patterns\<close> category is a
  sequence or absent, the call returns, the category exists afterwards and is the old
  sequence (empty if absent) with the insight appended, every other category is as it was,
  one write of the file has been attempted, and when the write succeeds the file holds
  the new catalogue.
\<close>

theorem add_insight_threshold:
  "session_insights (snd (add_insight now self insight)) =
     session_insights self @ [setitem insight ''timestamp'' (PStr now)]
   \<and> (significance insight = Some r \<and> r \<le> 7 / 10 \<longrightarrow>
         fst (add_insight now self insight) = None
         \<and> knowledge (snd (add_insight now self insight)) = knowledge self
         \<and> disk (snd (add_insight now self insight)) = disk self)
   \<and> (significance insight = Some r \<and> 7 / 10 < r
         \<and> category (knowledge self) ''learned_patterns'' = Some patterns \<longrightarrow>
         fst (add_insight now self insight) = None
         \<and> category (knowledge (snd (add_insight now self insight))) ''learned_patterns'' =
             Some (patterns @ [PDict (setitem insight ''timestamp'' (PStr now))])
         \<and> has_category (knowledge (snd (add_insight now self insight))) ''learned_patterns''
         \<and> (\<forall>c. c \<noteq> ''learned_patterns'' \<longrightarrow>
               category (knowledge (snd (add_insight now self insight))) c =
                 category (knowledge self) c)
         \<and> writes_attempted (disk (snd (add_insight now self insight))) =
             Suc (writes_attempted (disk self))
         \<and> (next_write (disk self) = WriteOk \<longrightarrow>
               content (disk (snd (add_insight now self insight))) =
                 Stored (knowledge (snd (add_insight now self insight)))))"
proof (intro conjI allI impI)
  show "session_insights (snd (add_insight now self insight)) =
     session_insights self @ [setitem insight ''timestamp'' (PStr now)]"
    by (rule add_insight_logs)
next
  assume "significance insight = Some r \<and> r \<le> 7 / 10"
  then have *: "add_insight now self insight =
           (None, self\<lparr>session_insights :=
                        session_insights self @ [setitem insight ''timestamp'' (PStr now)]\<rparr>)"
    by (simp add: add_insight_low)
  show "fst (add_insight now self insight) = None"
    "knowledge (snd (add_insight now self insight)) = knowledge self"
    "disk (snd (add_insight now self insight)) = disk self"
    by (simp_all add: *)
next
  fix c
  assume a: "significance insight = Some r \<and> 7 / 10 < r
         \<and> category (knowledge self) ''learned_patterns'' = Some patterns"
  let ?self1 = "self\<lparr>session_insights :=
                        session_insights self @ [setitem insight ''timestamp'' (PStr now)]\<rparr>"
  let ?ins = "setitem insight ''timestamp'' (PStr now)"
  from a have h: "add_insight now self insight = promote ?self1 ?ins"
    by (simp add: add_insight_high)
  from a have "category (knowledge ?self1) ''learned_patterns'' = Some patterns" by simp
  from promote_category [OF this, of ?ins] obtain self' where
    p: "promote ?self1 ?ins = (None, self')"
      "category (knowledge self') ''learned_patterns'' = Some (patterns @ [PDict ?ins])"
      "has_category (knowledge self') ''learned_patterns''"
      "\<forall>c. c \<noteq> ''learned_patterns'' \<longrightarrow> category (knowledge self') c = category (knowledge ?self1) c"
      "writes_attempted (disk self') = Suc (writes_attempted (disk ?self1))"
      "next_write (disk ?self1) = WriteOk \<longrightarrow> content (disk self') = Stored (knowledge self')"
    by blast
  show "fst (add_insight now self insight) = None" by (simp add: h p)
  show "category (knowledge (snd (add_insight now self insight))) ''learned_patterns'' =
             Some (patterns @ [PDict ?ins])" by (simp add: h p)
  show "has_category (knowledge (snd (add_insight now self insight))) ''learned_patterns''"
    by (simp add: h p)
  show "writes_attempted (disk (snd (add_insight now self insight))) =
             Suc (writes_attempted (disk self))" using p(5) by (simp add: h p(1))
  { assume "c \<noteq> ''learned_patterns''"
    then show "category (knowledge (snd (add_insight now self insight))) c =
                 category (knowledge self) c" using p(4) by (simp add: h p(1)) }
  { assume "next_write (disk self) = WriteOk"
    then show "content (disk (snd (add_insight now self insight))) =
                 Stored (knowledge (snd (add_insight now self insight)))"
      using p(6) by (simp add: h p(1)) }
qed


lemma fresh_base:
  "new_cognition_base absent_storage =
     \<lparr>knowledge = seed_knowledge, session_insights = [], disk = absent_storage\<rparr>"
  by (simp add: new_cognition_base_def absent_storage_def load_knowledge_def)

lemma absent_storage_fields:
  "content absent_storage = Absent" "next_write absent_storage = WriteOk"
  "writes_attempted absent_storage = 0"
  by (simp_all add: absent_storage_def)

lemma seed_learned_patterns: "category seed_knowledge ''learned_patterns'' = Some []"
  by (simp add: category_def seed_knowledge_def)

text \<open>
  The threshold at a significance of 0.9 and of 0.5, in a fresh session.
\<close>

theorem add_insight_threshold_witness:
  "significance [(''goal'', PStr ''sort''), (''significance'', PFloat (9 / 10))] = Some (9 / 10)
   \<and> category (knowledge (new_cognition_base absent_storage)) ''learned_patterns'' = Some []
   \<and> category
        (knowledge (snd (add_insight ''t1'' (new_cognition_base absent_storage)
           [(''goal'', PStr ''sort''), (''significance'', PFloat (9 / 10))])))
        ''learned_patterns'' =
       Some [PDict [(''goal'', PStr ''sort''), (''significance'', PFloat (9 / 10)),
                    (''timestamp'', PStr ''t1'')]]
   \<and> writes_attempted
        (disk (snd (add_insight ''t1'' (new_cognition_base absent_storage)
           [(''goal'', PStr ''sort''), (''significance'', PFloat (9 / 10))]))) = 1
   \<and> significance [(''goal'', PStr ''sort''), (''significance'', PFloat (5 / 10))] = Some (5 / 10)
   \<and> knowledge (snd (add_insight ''t1'' (new_cognition_base absent_storage)
           [(''goal'', PStr ''sort''), (''significance'', PFloat (5 / 10))])) = seed_knowledge"
  using add_insight_threshold [of "''t1''" "new_cognition_base absent_storage"
      "[(''goal'', PStr ''sort''), (''significance'', PFloat (9 / 10))]" "9 / 10" "[]"]
    add_insight_threshold [of "''t1''" "new_cognition_base absent_storage"
      "[(''goal'', PStr ''sort''), (''significance'', PFloat (5 / 10))]" "5 / 10" "[]"]
  by (simp add: significance_def get_default_def fresh_base seed_learned_patterns setitem_def
        absent_storage_fields)

section \<open>Properties of the session summary\<close>

lemma py_set_unhashable:
  "x \<in> set xs \<Longrightarrow> \<not> hashable x \<Longrightarrow> py_set xs = Inl TypeError"
  by (auto simp: py_set_def list_all_iff)

text \<open>
  Claim C3, where the code departs from it.  The analyzer records the proposal's
  \<^verbatim>\<open>strategies_used\<close> list as the insight's strategy reference, and
  \<^verbatim>\<open>get_session_summary\<close> puts the non-empty references into a \<^verbatim>\<open>set\<close>.  A list is
  not hashable: as soon as one logged insight carries a non-empty list, the summary is
  not returned and TypeError is raised instead.
\<close>

theorem session_summary_raises_on_list_reference:
  assumes "insight \<in> set (session_insights self)"
      and "get_default insight ''strategy'' PNone = PList (name # names)"
  shows "get_session_summary self = Inl TypeError"
proof -
  let ?refs = "map (\<lambda>i. get_default i ''strategy'' PNone)
                 (filter (\<lambda>i. truthy (get_default i ''strategy'' PNone)) (session_insights self))"
  from assms have "PList (name # names) \<in> set ?refs" by force
  then have "py_set ?refs = Inl TypeError"
    by (rule py_set_unhashable) simp
  then show ?thesis by (simp add: get_session_summary_def)
qed

lemma session_summary_hashable:
  assumes "list_all (\<lambda>i. hashable (get_default i ''strategy'' PNone)) (session_insights self)"
  shows "\<exists>refs. get_session_summary self =
           Inr \<lparr>total_insights = length (session_insights self),
                insights = session_insights self, strategies_used = refs\<rparr>"
  using assms
  by (auto simp: get_session_summary_def py_set_def list_all_iff)

lemma session_summary_total:
  "get_session_summary self = Inr s \<Longrightarrow>
   total_insights s = length (session_insights self) \<and> insights s = session_insights self"
  by (auto simp: get_session_summary_def split: sum.splits)

section \<open>Properties of the analyst\<close>

lemma output_preview_wf:
  "well_formed_test_result t \<Longrightarrow> \<exists>preview. output_preview t = Inr preview"
  by (auto simp: well_formed_test_result_def output_preview_def Let_def split: pyval.splits)

lemma analysis_prompt_wf:
  assumes "well_formed_proposal p" "well_formed_test_result t"
  shows "\<exists>prompt. analysis_prompt p t v = Inr prompt"
proof -
  from assms(2) obtain preview where "output_preview t = Inr preview"
    using output_preview_wf by blast
  moreover from assms(1) obtain g where "getitem p ''goal'' = Inr g"
    by (auto simp: well_formed_proposal_def has_key_def getitem_def)
  moreover from assms(2) obtain s where "getitem t ''success'' = Inr s"
    by (auto simp: well_formed_test_result_def has_key_def getitem_def)
  ultimately show ?thesis by (simp add: analysis_prompt_def)
qed

lemma analysis_prompt_reads:
  assumes "analysis_prompt p t v = Inr prompt"
  shows "\<exists>g s. getitem p ''goal'' = Inr g \<and> getitem t ''success'' = Inr s"
  using assms by (auto simp: analysis_prompt_def split: sum.splits)

lemma analyze_results_failure:
  assumes "analysis_prompt p t v = Inr prompt" "getitem t ''success'' = Inr s"
  shows "analyze_results now (Failure msg) self p t v =
           (Inr [(''iteration'', get_default p ''iteration'' (PInt 1)),
                 (''success'', s),
                 (''analysis'', PStr (failure_text msg s)),
                 (''test_result'', PDict t),
                 (''validation'', PDict v)],
            self\<lparr>analyses := analyses self @
               [[(''iteration'', get_default p ''iteration'' (PInt 1)),
                 (''success'', s),
                 (''analysis'', PStr (failure_text msg s)),
                 (''test_result'', PDict t),
                 (''validation'', PDict v)]]\<rparr>)"
  using assms by (simp add: analyze_results_def Let_def)

lemma key_learning_response:
  "key_learning [(''iteration'', it), (''success'', s), (''analysis'', PStr response),
                 (''test_result'', tr), (''validation'', va)] =
     Inr (PStr (if response = [] then ''No analysis available'' else take 200 response))"
  by (simp add: key_learning_def get_default_def)

lemma analyze_results_response:
  assumes "analysis_prompt p t v = Inr prompt" "getitem t ''success'' = Inr s"
      and "getitem p ''goal'' = Inr g"
  shows "analyze_results now (Response response) self p t v =
           (Inr [(''iteration'', get_default p ''iteration'' (PInt 1)),
                 (''success'', s),
                 (''analysis'', PStr response),
                 (''test_result'', PDict t),
                 (''validation'', PDict v)],
            \<lparr>a_cognition_base =
               snd (add_insight now (a_cognition_base self)
                 [(''goal'', g),
                  (''strategy'', get_default p ''strategies_used'' (PList [])),
                  (''success'', s),
                  (''key_learning'',
                     PStr (if response = [] then ''No analysis available''
                           else take 200 response)),
                  (''significance'', PFloat (if truthy s then 5 / 10 else 3 / 10))]),
             analyses = analyses self @
               [[(''iteration'', get_default p ''iteration'' (PInt 1)),
                 (''success'', s),
                 (''analysis'', PStr response),
                 (''test_result'', PDict t),
                 (''validation'', PDict v)]]\<rparr>)"
  using assms
  by (simp add: analyze_results_def extract_insights_def key_learning_response Let_def
        getitem_def)


lemma do_analyze_wf:
  assumes "well_formed_call c"
  shows "\<exists>a s. getitem (call_test_result c) ''success'' = Inr s
           \<and> analyses (do_analyze self c) = analyses self @ [a]
           \<and> getitem a ''success'' = Inr s
           \<and> getitem a ''validation'' = Inr (PDict (call_validation c))
           \<and> length (session_insights (a_cognition_base (do_analyze self c))) =
               length (session_insights (a_cognition_base self)) +
               (if generator_succeeded (call_llm c) then 1 else 0)"
proof -
  from assms obtain prompt where
    pr: "analysis_prompt (call_proposal c) (call_test_result c) (call_validation c) = Inr prompt"
    using analysis_prompt_wf unfolding well_formed_call_def by blast
  then obtain g s where
    g: "getitem (call_proposal c) ''goal'' = Inr g" and
    s: "getitem (call_test_result c) ''success'' = Inr s"
    using analysis_prompt_reads by blast
  show ?thesis
  proof (cases "call_llm c")
    case (Response response)
    show ?thesis
      unfolding do_analyze_def Response
      by (simp add: analyze_results_response [OF pr s g] s add_insight_logs)
        (simp add: getitem_def)
  next
    case (Failure msg)
    show ?thesis
      unfolding do_analyze_def Failure
      by (simp add: analyze_results_failure [OF pr s] s) (simp add: getitem_def)
  qed
qed

lemma run_analyses_snoc: "run_analyses self (cs @ [c]) = do_analyze (run_analyses self cs) c"
  by (simp add: run_analyses_def)

lemma run_analyses_counts:
  assumes "list_all well_formed_call calls"
  shows "length (analyses (run_analyses self calls)) = length (analyses self) + length calls
         \<and> length (session_insights (a_cognition_base (run_analyses self calls))) =
             length (session_insights (a_cognition_base self)) +
             length (filter (\<lambda>c. generator_succeeded (call_llm c)) calls)"
  using assms
proof (induction calls rule: rev_induct)
  case Nil
  then show ?case by (simp add: run_analyses_def)
next
  case (snoc c cs)
  then have wf: "well_formed_call c" and ih:
    "length (analyses (run_analyses self cs)) = length (analyses self) + length cs"
    "length (session_insights (a_cognition_base (run_analyses self cs))) =
       length (session_insights (a_cognition_base self)) +
       length (filter (\<lambda>c. generator_succeeded (call_llm c)) cs)"
    by simp_all
  from do_analyze_wf [OF wf, of "run_analyses self cs"] show ?case
    by (auto simp: run_analyses_snoc ih)
qed

text \<open>
  Claim C2, as the code has it.  After any sequence of well-formed analyze calls, the
  session log has grown by the number of calls in which the generator answered: a call
  in which the generator failed records no insight.  Whenever \<^verbatim>\<open>get_session_summary\<close>
  returns, its \<^verbatim>\<open>total_insights\<close> is that length.
\<close>

theorem insight_count_is_generator_successes:
  assumes "list_all well_formed_call calls"
  shows "length (session_insights (a_cognition_base (run_analyses self calls))) =
           length (session_insights (a_cognition_base self)) +
           length (filter (\<lambda>c. generator_succeeded (call_llm c)) calls)
         \<and> (get_session_summary (a_cognition_base (run_analyses self calls)) = Inr s \<longrightarrow>
              total_insights s =
                length (session_insights (a_cognition_base self)) +
                length (filter (\<lambda>c. generator_succeeded (call_llm c)) calls))"
  using run_analyses_counts [OF assms, of self] session_summary_total [of _ s]
  by auto

lemma failed_call_wf: "well_formed_call failed_call"
  by (simp add: well_formed_call_def failed_call_def well_formed_proposal_def
        well_formed_test_result_def has_key_def get_default_def)

lemma answered_call_wf: "well_formed_call answered_call"
  by (simp add: well_formed_call_def answered_call_def failed_call_def well_formed_proposal_def
        well_formed_test_result_def has_key_def get_default_def)

lemma failed_call_run:
  "run_analyses (new_analyst (new_cognition_base absent_storage)) [failed_call] =
     \<lparr>a_cognition_base = new_cognition_base absent_storage,
      analyses =
        [[(''iteration'', PInt 1), (''success'', PBool False),
          (''analysis'', PStr ''Analysis failed: timeout. Test result: Failed''),
          (''test_result'', PDict [(''success'', PBool False), (''error'', PStr ''IndexError'')]),
          (''validation'', PDict [(''meets_goal'', PBool False)])]]\<rparr>"
  by (simp add: run_analyses_def do_analyze_def failed_call_def analyze_results_def
        analysis_prompt_def output_preview_def getitem_def get_default_def new_analyst_def
        failure_text_def Let_def)

text \<open>
  Claim C2 as stated fails: in a fresh session, one analyze call in which the generator
  fails returns an analysis and appends it to the history, and the summary counts no
  insight.
\<close>

theorem insight_count_counterexample:
  "get_session_summary
     (a_cognition_base
        (run_analyses (new_analyst (new_cognition_base absent_storage)) [failed_call])) =
     Inr \<lparr>total_insights = 0, insights = [], strategies_used = []\<rparr>
   \<and> length [failed_call] = 1
   \<and> length (analyses
        (run_analyses (new_analyst (new_cognition_base absent_storage)) [failed_call])) = 1"
  unfolding failed_call_run
  by (simp add: fresh_base get_session_summary_def py_set_def)

text \<open>
  Three calls, the generator failing in the second: two insights.
\<close>

theorem insight_count_is_generator_successes_witness:
  "list_all well_formed_call [answered_call, failed_call, answered_call]
   \<and> length (session_insights (a_cognition_base
        (run_analyses (new_analyst (new_cognition_base absent_storage))
           [answered_call, failed_call, answered_call]))) = 2"
  using insight_count_is_generator_successes
    [of "[answered_call, failed_call, answered_call]"
      "new_analyst (new_cognition_base absent_storage)"]
  by (simp add: failed_call_wf answered_call_wf new_analyst_def fresh_base)
    (simp add: answered_call_def failed_call_def)


text \<open>
  Claim C5.  For a proposal with a goal and a test result with a success flag (and an
  output that is a string or absent), \<^verbatim>\<open>analyze_results\<close> returns an analysis when the
  generator fails: it appends to the history the analysis it returns, whose
  \<^verbatim>\<open>analysis\<close> field is the failure message followed by the outcome of the test, and
  whose iteration, success flag, test result and validation are those of the analysis
  returned when the generator answers.
\<close>

theorem analyze_survives_generator_failure:
  assumes "well_formed_proposal proposal" "well_formed_test_result test_result"
  shows "\<exists>success.
           getitem test_result ''success'' = Inr success
           \<and> analyze_results now (Failure msg) self proposal test_result validation =
               (Inr [(''iteration'', get_default proposal ''iteration'' (PInt 1)),
                     (''success'', success),
                     (''analysis'',
                        PStr (''Analysis failed: '' @ msg @ ''. Test result: '' @
                              (if truthy success then ''Success'' else ''Failed''))),
                     (''test_result'', PDict test_result),
                     (''validation'', PDict validation)],
                self\<lparr>analyses := analyses self @
                  [[(''iteration'', get_default proposal ''iteration'' (PInt 1)),
                    (''success'', success),
                    (''analysis'',
                       PStr (''Analysis failed: '' @ msg @ ''. Test result: '' @
                             (if truthy success then ''Success'' else ''Failed''))),
                    (''test_result'', PDict test_result),
                    (''validation'', PDict validation)]]\<rparr>)
           \<and> fst (analyze_results now (Response response) self proposal test_result validation) =
               Inr [(''iteration'', get_default proposal ''iteration'' (PInt 1)),
                    (''success'', success),
                    (''analysis'', PStr response),
                    (''test_result'', PDict test_result),
                    (''validation'', PDict validation)]"
proof -
  from assms obtain prompt where
    pr: "analysis_prompt proposal test_result validation = Inr prompt"
    using analysis_prompt_wf by blast
  then obtain g s where
    g: "getitem proposal ''goal'' = Inr g" and s: "getitem test_result ''success'' = Inr s"
    using analysis_prompt_reads by blast
  show ?thesis
    using analyze_results_failure [OF pr s, of now msg self]
      analyze_results_response [OF pr s g, of now response self]
    by (simp add: s failure_text_def)
qed

text \<open>
  The degraded analysis of a failed test when the generator times out.
\<close>

theorem analyze_survives_generator_failure_witness:
  "well_formed_proposal (call_proposal failed_call)
   \<and> well_formed_test_result (call_test_result failed_call)
   \<and> analyze_results ''t1'' (Failure ''timeout'')
        (new_analyst (new_cognition_base absent_storage))
        (call_proposal failed_call) (call_test_result failed_call)
        (call_validation failed_call) =
       (Inr [(''iteration'', PInt 1), (''success'', PBool False),
             (''analysis'', PStr ''Analysis failed: timeout. Test result: Failed''),
             (''test_result'',
                PDict [(''success'', PBool False), (''error'', PStr ''IndexError'')]),
             (''validation'', PDict [(''meets_goal'', PBool False)])],
        \<lparr>a_cognition_base = new_cognition_base absent_storage,
         analyses =
           [[(''iteration'', PInt 1), (''success'', PBool False),
             (''analysis'', PStr ''Analysis failed: timeout. Test result: Failed''),
             (''test_result'',
                PDict [(''success'', PBool False), (''error'', PStr ''IndexError'')]),
             (''validation'', PDict [(''meets_goal'', PBool False)])]]\<rparr>)"
  using analyze_survives_generator_failure
    [of "call_proposal failed_call" "call_test_result failed_call" "''t1''" "''timeout''"
      "new_analyst (new_cognition_base absent_storage)" "call_validation failed_call"]
    failed_call_wf
  by (simp add: well_formed_call_def)
    (simp add: failed_call_def getitem_def get_default_def new_analyst_def)

lemma recommend_last:
  assumes "analyses self = history @ [last_analysis]"
      and "getitem last_analysis ''success'' = Inr success"
      and "truthy success \<longrightarrow> getitem last_analysis ''validation'' = Inr (PDict validation)"
  shows "recommend_next_action self =
           Inr (if truthy success \<and> truthy (get_default validation ''meets_goal'' PNone)
                then ''Goal achieved! Consider optimizing the solution or trying a more complex goal.''
                else if truthy success
                then ''Solution runs but doesn't fully meet the goal. Refine the logic.''
                else if 5 \<le> length (analyses self)
                then ''Multiple attempts failed. Consider revising the goal or approach fundamentally.''
                else ''Refine the current approach based on the error feedback.'')"
  using assms by (simp add: recommend_next_action_def Let_def)

lemma run_analyses_last:
  assumes "list_all well_formed_call (cs @ [c])"
  shows "\<exists>history a s. analyses (run_analyses self (cs @ [c])) = history @ [a]
           \<and> getitem (call_test_result c) ''success'' = Inr s
           \<and> getitem a ''success'' = Inr s
           \<and> getitem a ''validation'' = Inr (PDict (call_validation c))"
proof -
  from assms have "well_formed_call c" by simp
  from do_analyze_wf [OF this, of "run_analyses self cs"] show ?thesis
    unfolding run_analyses_snoc by blast
qed

text \<open>
  Claim C9.  With no analysis the recommendation is to start with a new proposal.
  Otherwise it is decided by the last analysis (its success flag and the
  \<^verbatim>\<open>meets_goal\<close> entry of its validation) and by the length of the history, as in the
  table of the specification.  After any five or more well-formed analyze calls whose
  tests all failed, from any starting state, the recommendation is to reconsider
  fundamentally.
\<close>

theorem recommend_next_action_table:
  "recommend_next_action (self\<lparr>analyses := []\<rparr>) =
     Inr ''No data available. Start with a new proposal.''
   \<and> (analyses self = history @ [last_analysis]
        \<and> getitem last_analysis ''success'' = Inr success
        \<and> getitem last_analysis ''validation'' = Inr (PDict validation) \<longrightarrow>
      recommend_next_action self =
        Inr (if truthy success \<and> truthy (get_default validation ''meets_goal'' PNone)
             then ''Goal achieved! Consider optimizing the solution or trying a more complex goal.''
             else if truthy success
             then ''Solution runs but doesn't fully meet the goal. Refine the logic.''
             else if 5 \<le> length (analyses self)
             then ''Multiple attempts failed. Consider revising the goal or approach fundamentally.''
             else ''Refine the current approach based on the error feedback.''))
   \<and> (list_all well_formed_call calls \<and> 5 \<le> length calls
        \<and> list_all (\<lambda>c. \<not> truthy (get_default (call_test_result c) ''success'' PNone)) calls \<longrightarrow>
      recommend_next_action (run_analyses start calls) =
        Inr ''Multiple attempts failed. Consider revising the goal or approach fundamentally.'')"
proof (intro conjI impI)
  show "recommend_next_action (self\<lparr>analyses := []\<rparr>) =
     Inr ''No data available. Start with a new proposal.''"
    by (simp add: recommend_next_action_def)
next
  assume "analyses self = history @ [last_analysis]
        \<and> getitem last_analysis ''success'' = Inr success
        \<and> getitem last_analysis ''validation'' = Inr (PDict validation)"
  then have 1: "analyses self = history @ [last_analysis]"
    and 2: "getitem last_analysis ''success'' = Inr success"
    and 3: "getitem last_analysis ''validation'' = Inr (PDict validation)"
    by simp_all
  show "recommend_next_action self =
        Inr (if truthy success \<and> truthy (get_default validation ''meets_goal'' PNone)
             then ''Goal achieved! Consider optimizing the solution or trying a more complex goal.''
             else if truthy success
             then ''Solution runs but doesn't fully meet the goal. Refine the logic.''
             else if 5 \<le> length (analyses self)
             then ''Multiple attempts failed. Consider revising the goal or approach fundamentally.''
             else ''Refine the current approach based on the error feedback.'')"
    by (rule recommend_last [OF 1 2]) (simp add: 3)
next
  assume a: "list_all well_formed_call calls \<and> 5 \<le> length calls
        \<and> list_all (\<lambda>c. \<not> truthy (get_default (call_test_result c) ''success'' PNone)) calls"
  then obtain cs c where calls: "calls = cs @ [c]"
    by (cases calls rule: rev_cases) auto
  with a have wf: "list_all well_formed_call (cs @ [c])"
    and failed: "\<not> truthy (get_default (call_test_result c) ''success'' PNone)"
    by simp_all
  from run_analyses_last [OF wf, of start] obtain h la s where
    l: "analyses (run_analyses start (cs @ [c])) = h @ [la]"
      "getitem (call_test_result c) ''success'' = Inr s"
      "getitem la ''success'' = Inr s"
    by blast
  from l(2) failed have ns: "\<not> truthy s"
    by (auto simp: getitem_def get_default_def split: option.splits)
  from run_analyses_counts [OF wf, of start] a calls
  have len: "5 \<le> length (analyses (run_analyses start (cs @ [c])))" by simp
  from recommend_last [OF l(1) l(3), of undefined] ns len
  show "recommend_next_action (run_analyses start calls) =
        Inr ''Multiple attempts failed. Consider revising the goal or approach fundamentally.''"
    by (simp add: calls)
qed


text \<open>
  Five failed analyses in a fresh session, and one.
\<close>

theorem recommend_next_action_table_witness:
  "list_all well_formed_call [failed_call, failed_call, failed_call, failed_call, failed_call]
   \<and> recommend_next_action
        (run_analyses (new_analyst (new_cognition_base absent_storage))
           [failed_call, failed_call, failed_call, failed_call, failed_call]) =
       Inr ''Multiple attempts failed. Consider revising the goal or approach fundamentally.''
   \<and> recommend_next_action
        (run_analyses (new_analyst (new_cognition_base absent_storage)) [failed_call]) =
       Inr ''Refine the current approach based on the error feedback.''"
  using recommend_next_action_table
    [where calls = "[failed_call, failed_call, failed_call, failed_call, failed_call]"
       and start = "new_analyst (new_cognition_base absent_storage)"
       and self = "run_analyses (new_analyst (new_cognition_base absent_storage)) [failed_call]"
       and history = "[]"
       and last_analysis =
         "[(''iteration'', PInt 1), (''success'', PBool False),
           (''analysis'', PStr ''Analysis failed: timeout. Test result: Failed''),
           (''test_result'',
              PDict [(''success'', PBool False), (''error'', PStr ''IndexError'')]),
           (''validation'', PDict [(''meets_goal'', PBool False)])]"
       and success = "PBool False"
       and validation = "[(''meets_goal'', PBool False)]"]
  unfolding failed_call_run
  by (simp add: failed_call_wf getitem_def)
    (simp add: failed_call_def get_default_def)

section \<open>Properties of the researcher\<close>

lemma propose_solution_Inr:
  assumes "propose_solution llm self goal previous_attempt = (Inr proposal, self1)"
  shows "\<exists>response names.
           llm = Response response
           \<and> proposal =
               [(''goal'', PStr goal), (''solution'', PStr response),
                (''strategies_used'', PList names),
                (''iteration'', PInt (int (length (proposal_history self)) + 1))]
           \<and> self1 = self\<lparr>proposal_history := proposal_history self @ [proposal]\<rparr>"
  using assms
  by (auto simp: propose_solution_def Let_def split: sum.splits llm_outcome.splits)

lemma refine_proposal_response:
  assumes "getitem proposal ''goal'' = Inr g" "getitem proposal ''solution'' = Inr sol"
      and "getitem proposal ''iteration'' = Inr (PInt n)"
  shows "refine_proposal (Response response) self proposal feedback =
           (Inr [(''goal'', g), (''solution'', PStr response),
                 (''strategies_used'', get_default proposal ''strategies_used'' (PList [])),
                 (''iteration'', PInt (n + 1)), (''refined_from'', PInt n)],
            self\<lparr>proposal_history := proposal_history self @
               [[(''goal'', g), (''solution'', PStr response),
                 (''strategies_used'', get_default proposal ''strategies_used'' (PList [])),
                 (''iteration'', PInt (n + 1)), (''refined_from'', PInt n)]]\<rparr>)"
  using assms by (simp add: refine_proposal_def refine_prompt_def Let_def)

text \<open>
  Claim C6.  If \<^verbatim>\<open>propose_solution\<close> returns a proposal, its iteration is the length of
  the history before the call plus one, and \<^verbatim>\<open>refine_proposal\<close> called on it next, with
  any feedback and the generator answering, returns a proposal with the same goal, the
  same \<^verbatim>\<open>strategies_used\<close>, the iteration plus one, and \<^verbatim>\<open>refined_from\<close> equal to the
  proposed iteration, and appends it to the history.
\<close>

theorem propose_then_refine:
  assumes "propose_solution llm self goal previous_attempt = (Inr proposal, self1)"
  shows "\<exists>n names.
           n = int (length (proposal_history self)) + 1
           \<and> getitem proposal ''iteration'' = Inr (PInt n)
           \<and> getitem proposal ''goal'' = Inr (PStr goal)
           \<and> getitem proposal ''strategies_used'' = Inr (PList names)
           \<and> refine_proposal (Response response) self1 proposal feedback =
               (Inr [(''goal'', PStr goal), (''solution'', PStr response),
                     (''strategies_used'', PList names),
                     (''iteration'', PInt (n + 1)), (''refined_from'', PInt n)],
                self1\<lparr>proposal_history := proposal_history self1 @
                  [[(''goal'', PStr goal), (''solution'', PStr response),
                    (''strategies_used'', PList names),
                    (''iteration'', PInt (n + 1)), (''refined_from'', PInt n)]]\<rparr>)"
proof -
  from propose_solution_Inr [OF assms] obtain r names where
    p: "proposal =
          [(''goal'', PStr goal), (''solution'', PStr r), (''strategies_used'', PList names),
           (''iteration'', PInt (int (length (proposal_history self)) + 1))]"
    by blast
  have g: "getitem proposal ''goal'' = Inr (PStr goal)"
    and s: "getitem proposal ''solution'' = Inr (PStr r)"
    and i: "getitem proposal ''iteration'' = Inr (PInt (int (length (proposal_history self)) + 1))"
    and u: "getitem proposal ''strategies_used'' = Inr (PList names)"
    and u': "get_default proposal ''strategies_used'' (PList []) = PList names"
    by (simp_all add: p getitem_def get_default_def)
  show ?thesis
    using refine_proposal_response [OF g s i, of response self1 feedback]
    by (simp add: g i u u')
qed

lemma seed_strategy_lines:
  "map_err strategy_line [divide_and_conquer, iterative_refinement] =
     Inr [[PStr ''Divide and Conquer'', PStr ''Break complex problems into smaller subproblems''],
          [PStr ''Iterative Refinement'',
           PStr ''Start with a basic solution and improve it iteratively'']]"
  by (simp add: strategy_line_def divide_and_conquer_def iterative_refinement_def getitem_def)

lemma seed_strategy_names:
  "map_err (\<lambda>s. py_getitem s ''name'') [divide_and_conquer, iterative_refinement] =
     Inr [PStr ''Divide and Conquer'', PStr ''Iterative Refinement'']"
  by (simp add: divide_and_conquer_def iterative_refinement_def getitem_def)

lemma propose_search:
  "propose_solution (Response ''def search(xs, x): ...'')
     (new_researcher (new_cognition_base absent_storage))
     ''optimize this search algorithm'' None =
   (Inr search_proposal,
    \<lparr>r_cognition_base = new_cognition_base absent_storage,
     proposal_history = [search_proposal]\<rparr>)"
  by (simp add: propose_solution_def new_researcher_def scenario_value fresh_knowledge
        proposal_prompt_def seed_strategy_lines seed_strategy_names search_proposal_def Let_def
      del: map_err.simps)

text \<open>
  A proposal for the search goal in a fresh session, and its refinement.
\<close>

theorem propose_then_refine_witness:
  "propose_solution (Response ''def search(xs, x): ...'')
     (new_researcher (new_cognition_base absent_storage))
     ''optimize this search algorithm'' None =
   (Inr search_proposal,
    \<lparr>r_cognition_base = new_cognition_base absent_storage,
     proposal_history = [search_proposal]\<rparr>)
   \<and> fst (refine_proposal (Response ''def search2(xs, x): ...'')
        \<lparr>r_cognition_base = new_cognition_base absent_storage,
         proposal_history = [search_proposal]\<rparr>
        search_proposal [(''success'', PBool False)]) =
       Inr [(''goal'', PStr ''optimize this search algorithm''),
            (''solution'', PStr ''def search2(xs, x): ...''),
            (''strategies_used'',
               PList [PStr ''Divide and Conquer'', PStr ''Iterative Refinement'']),
            (''iteration'', PInt 2), (''refined_from'', PInt 1)]"
  using propose_then_refine [OF propose_search, of "''def search2(xs, x): ...''"
      "[(''success'', PBool False)]"]
    propose_search
  by (simp add: search_proposal_def getitem_def)

text \<open>
  Claim C10.  When the generator raises, \<^verbatim>\<open>propose_solution\<close> and
  \<^verbatim>\<open>refine_proposal\<close> raise and leave the object, and so the history, as it was; when
  the query was reached (the prompt could be built) the exception raised is the
  generator's.  A proposal made afterwards is the one that would have been made without
  the failed call, with the same iteration number.
\<close>

theorem failed_generation_leaves_history:
  "(\<exists>e. propose_solution (Failure msg) self goal previous_attempt = (Inl e, self))
   \<and> (\<exists>e. refine_proposal (Failure msg) self proposal feedback = (Inl e, self))
   \<and> (get_relevant_strategies (r_cognition_base self) goal = Inr strategies
        \<and> proposal_prompt goal strategies previous_attempt = Inr prompt \<longrightarrow>
      propose_solution (Failure msg) self goal previous_attempt =
        (Inl (GenerationError msg), self))
   \<and> (refine_prompt proposal feedback = Inr prompt' \<longrightarrow>
      refine_proposal (Failure msg) self proposal feedback = (Inl (GenerationError msg), self))
   \<and> propose_solution llm (snd (propose_solution (Failure msg) self goal previous_attempt))
        next_goal next_attempt =
      propose_solution llm self next_goal next_attempt
   \<and> propose_solution llm (snd (refine_proposal (Failure msg) self proposal feedback))
        next_goal next_attempt =
      propose_solution llm self next_goal next_attempt"
proof -
  have 1: "\<exists>e. propose_solution (Failure msg) self goal previous_attempt = (Inl e, self)"
    by (simp add: propose_solution_def split: sum.splits)
  have 2: "\<exists>e. refine_proposal (Failure msg) self proposal feedback = (Inl e, self)"
    by (simp add: refine_proposal_def split: sum.splits)
  have 3: "get_relevant_strategies (r_cognition_base self) goal = Inr strategies
        \<and> proposal_prompt goal strategies previous_attempt = Inr prompt \<longrightarrow>
      propose_solution (Failure msg) self goal previous_attempt =
        (Inl (GenerationError msg), self)"
    by (simp add: propose_solution_def)
  have 4: "refine_prompt proposal feedback = Inr prompt' \<longrightarrow>
      refine_proposal (Failure msg) self proposal feedback = (Inl (GenerationError msg), self)"
    by (simp add: refine_proposal_def)
  from 1 have 5: "snd (propose_solution (Failure msg) self goal previous_attempt) = self"
    by auto
  from 2 have 6: "snd (refine_proposal (Failure msg) self proposal feedback) = self"
    by auto
  show ?thesis
    unfolding 5 6 using 1 2 3 4 by blast
qed

text \<open>
  The generator hits a rate limit in a fresh session, and again after a first proposal.
\<close>

theorem failed_generation_leaves_history_witness:
  "propose_solution (Failure ''rate limit'')
     (new_researcher (new_cognition_base absent_storage))
     ''optimize this search algorithm'' None =
   (Inl (GenerationError ''rate limit''), new_researcher (new_cognition_base absent_storage))
   \<and> refine_proposal (Failure ''rate limit'')
        \<lparr>r_cognition_base = new_cognition_base absent_storage,
         proposal_history = [search_proposal]\<rparr>
        search_proposal [(''success'', PBool False)] =
       (Inl (GenerationError ''rate limit''),
        \<lparr>r_cognition_base = new_cognition_base absent_storage,
         proposal_history = [search_proposal]\<rparr>)"
  using failed_generation_leaves_history
    [where msg = "''rate limit''" and goal = "''optimize this search algorithm''"
       and self = "new_researcher (new_cognition_base absent_storage)"
       and previous_attempt = None
       and strategies = "[divide_and_conquer, iterative_refinement]"
       and prompt = "PStr ''optimize this search algorithm'' #
          concat [[PStr ''Divide and Conquer'',
                   PStr ''Break complex problems into smaller subproblems''],
                  [PStr ''Iterative Refinement'',
                   PStr ''Start with a basic solution and improve it iteratively'']]"]
    failed_generation_leaves_history
    [where msg = "''rate limit''"
       and self = "\<lparr>r_cognition_base = new_cognition_base absent_storage,
                     proposal_history = [search_proposal]\<rparr>"
       and proposal = search_proposal and feedback = "[(''success'', PBool False)]"
       and prompt' = "[PStr ''optimize this search algorithm'', PStr ''def search(xs, x): ...'',
                       PBool False, PStr ''None'', PStr ''None'', PList []]"]
  by (simp add: new_researcher_def scenario_value fresh_knowledge proposal_prompt_def
        seed_strategy_lines refine_prompt_def search_proposal_def getitem_def get_default_def
      del: map_err.simps)

section \<open>The session summary after an analysis\<close>

lemma search_analysis_insights:
  "session_insights (a_cognition_base (snd (analyze_results ''t1'' (Response ''Works.'')
       (new_analyst (new_cognition_base absent_storage)) search_proposal
       [(''success'', PBool True)] [(''meets_goal'', PBool True)]))) =
     [[(''goal'', PStr ''optimize this search algorithm''),
       (''strategy'', PList [PStr ''Divide and Conquer'', PStr ''Iterative Refinement'']),
       (''success'', PBool True),
       (''key_learning'', PStr ''Works.''),
       (''significance'', PFloat (5 / 10)),
       (''timestamp'', PStr ''t1'')]]"
proof -
  have pr: "\<exists>prompt. analysis_prompt search_proposal [(''success'', PBool True)]
              [(''meets_goal'', PBool True)] = Inr prompt"
    by (simp add: analysis_prompt_def output_preview_def getitem_def get_default_def
          search_proposal_def)
  then obtain prompt where pr: "analysis_prompt search_proposal [(''success'', PBool True)]
              [(''meets_goal'', PBool True)] = Inr prompt" ..
  have s: "getitem [(''success'', PBool True)] ''success'' = Inr (PBool True)"
    by (simp add: getitem_def)
  have g: "getitem search_proposal ''goal'' = Inr (PStr ''optimize this search algorithm'')"
    by (simp add: getitem_def search_proposal_def)
  show ?thesis
    by (simp add: analyze_results_response [OF pr s g] add_insight_logs new_analyst_def fresh_base)
      (simp add: search_proposal_def get_default_def setitem_def)
qed

text \<open>
  The whole path in a fresh session: the proposal for the search goal names two
  strategies, the analyzer logs them as a list, and the summary raises.
\<close>

theorem session_summary_raises_on_list_reference_witness:
  "get_session_summary (a_cognition_base (snd (analyze_results ''t1'' (Response ''Works.'')
       (new_analyst (new_cognition_base absent_storage)) search_proposal
       [(''success'', PBool True)] [(''meets_goal'', PBool True)]))) = Inl TypeError"
  using session_summary_raises_on_list_reference
    [of "[(''goal'', PStr ''optimize this search algorithm''),
          (''strategy'', PList [PStr ''Divide and Conquer'', PStr ''Iterative Refinement'']),
          (''success'', PBool True),
          (''key_learning'', PStr ''Works.''),
          (''significance'', PFloat (5 / 10)),
          (''timestamp'', PStr ''t1'')]"
        "a_cognition_base (snd (analyze_results ''t1'' (Response ''Works.'')
           (new_analyst (new_cognition_base absent_storage)) search_proposal
           [(''success'', PBool True)] [(''meets_goal'', PBool True)]))"
        "PStr ''Divide and Conquer''" "[PStr ''Iterative Refinement'']"]
  by (simp add: search_analysis_insights get_default_def)

end
